theory Spec2Isabelle
  imports Complex_Main
begin

section \<open>Cell values of the two data frames\<close>

text \<open>
  The pipeline of \<^verbatim>\<open>etl.py\<close> works on two pandas data frames, \<^verbatim>\<open>clientes\<close> and
  \<^verbatim>\<open>vendas\<close>. A data frame is modelled as the list of its rows, in index order, and a
  row as a record with one field per column. A nullable cell is an \<open>option\<close>:
  \<open>None\<close> stands for the missing value of pandas (\<^verbatim>\<open>NaN\<close>, \<^verbatim>\<open>None\<close>, \<^verbatim>\<open>NaT\<close>), for which
  \<^verbatim>\<open>pd.isna\<close> answers true.

  A Python \<^verbatim>\<open>str\<close> is a sequence of Unicode code points, and \<^verbatim>\<open>len\<close> counts code
  points: text is a list of natural numbers, one per code point. \<open>pystr\<close> reads a
  literal written with 8-bit characters as the code points of the same numbers. A
  list may hold a number above U+10FFFF, which no Python string holds; no statement
  depends on that bound.
\<close>

definition pystr :: "string \<Rightarrow> nat list" where
  "pystr s = map of_char s"

text \<open>
  The transformation calls three string methods of Python: \<^verbatim>\<open>str.isdigit\<close>,
  \<^verbatim>\<open>str.upper\<close> and \<^verbatim>\<open>str.lower\<close>. On ASCII they are fixed: the digits are \<open>0\<close> to
  \<open>9\<close>, and the case conversions exchange \<open>a\<close>..\<open>z\<close> and \<open>A\<close>..\<open>Z\<close> (the
  interpreter itself takes this path for a string that is all ASCII). Beyond ASCII
  they are read from the Unicode character database of the interpreter, which is not
  part of the repository and changes with its version: there \<^verbatim>\<open>isdigit\<close> holds of
  several hundred code points (the superscript two, U+00B2, is one), \<^verbatim>\<open>upper\<close> may
  change the length of the text (U+00DF becomes two letters) and \<^verbatim>\<open>lower\<close> looks at
  the neighbours of a capital sigma. The database is a parameter of the model, a
  record of what the three methods answer beyond ASCII, and every statement below
  holds for every such record.
\<close>

record unicode =
  uni_isdigit :: "nat \<Rightarrow> bool"
  uni_upper :: "nat list \<Rightarrow> nat list"
  uni_lower :: "nat list \<Rightarrow> nat list"

text \<open>
  \<^verbatim>\<open>str.isdigit\<close> of the one-character string of a code point, as \<^verbatim>\<open>filter\<close> applies it.
\<close>

definition isdigit :: "unicode \<Rightarrow> nat \<Rightarrow> bool" where
  "isdigit u c = (if c < 128 then 48 \<le> c \<and> c \<le> 57 else uni_isdigit u c)"

definition ascii_upper :: "nat \<Rightarrow> nat" where
  "ascii_upper c = (if 97 \<le> c \<and> c \<le> 122 then c - 32 else c)"

definition ascii_lower :: "nat \<Rightarrow> nat" where
  "ascii_lower c = (if 65 \<le> c \<and> c \<le> 90 then c + 32 else c)"

definition upper :: "unicode \<Rightarrow> nat list \<Rightarrow> nat list" where
  "upper u s = (if list_all (\<lambda>c. c < 128) s then map ascii_upper s else uni_upper u s)"

definition lower :: "unicode \<Rightarrow> nat list \<Rightarrow> nat list" where
  "lower u s = (if list_all (\<lambda>c. c < 128) s then map ascii_lower s else uni_lower u s)"

text \<open>
  The column operations of pandas that the transformation uses. \<^verbatim>\<open>Series.fillna(d)\<close>
  replaces the missing cells only (an empty string is a value, not a missing cell);
  the \<^verbatim>\<open>.str\<close> accessor maps a string method over the cells and keeps a missing cell
  missing.
\<close>

definition fillna :: "'a \<Rightarrow> 'a option \<Rightarrow> 'a option" where
  "fillna d v = (case v of None \<Rightarrow> Some d | Some x \<Rightarrow> Some x)"

definition str_upper :: "unicode \<Rightarrow> nat list option \<Rightarrow> nat list option" where
  "str_upper u v = map_option (upper u) v"

definition str_lower :: "unicode \<Rightarrow> nat list option \<Rightarrow> nat list option" where
  "str_lower u v = map_option (lower u) v"

text \<open>
  A Python slice \<^verbatim>\<open>s[i:j]\<close> with \<open>0 \<le> i \<le> j\<close>, and \<^verbatim>\<open>s[i:]\<close>. Python clips a slice
  that runs past the end of the string, and so do \<open>take\<close> and \<open>drop\<close>.
\<close>

definition slice :: "nat \<Rightarrow> nat \<Rightarrow> 'a list \<Rightarrow> 'a list" where
  "slice i j s = take (j - i) (drop i s)"

definition slice_from :: "nat \<Rightarrow> 'a list \<Rightarrow> 'a list" where
  "slice_from i s = drop i s"

section \<open>Rows\<close>

text \<open>
  A row of \<^verbatim>\<open>clientes\<close>. The columns \<^verbatim>\<open>documento_formatado\<close> and \<^verbatim>\<open>data_cadastro\<close>
  are created by the transformation; in a frame that does not have them yet their
  fields hold \<open>None\<close>, and the transformation overwrites them whatever they hold.
\<close>

record cliente =
  id_cliente :: int
  nome :: "nat list"
  email :: "nat list"
  documento :: "nat list option"
  tipo_pessoa :: "nat list option"
  tipo_contato :: "nat list option"
  documento_formatado :: "nat list option"
  data_cadastro :: "nat list option"

text \<open>
  A cell of the datetime column \<^verbatim>\<open>data_venda\<close> is a timestamp, read through its
  calendar components, or \<^verbatim>\<open>NaT\<close>.
\<close>

record timestamp =
  ts_year :: int
  ts_month :: nat
  ts_day :: nat

definition leap_year :: "int \<Rightarrow> bool" where
  "leap_year y = (y mod 4 = 0 \<and> (y mod 100 \<noteq> 0 \<or> y mod 400 = 0))"

definition days_in_month :: "int \<Rightarrow> nat \<Rightarrow> nat" where
  "days_in_month y m =
     (if m = 2 then (if leap_year y then 29 else 28)
      else if m = 4 \<or> m = 6 \<or> m = 9 \<or> m = 11 then 30 else 31)"

definition valid_date :: "timestamp \<Rightarrow> bool" where
  "valid_date d = (1 \<le> ts_month d \<and> ts_month d \<le> 12 \<and>
     1 \<le> ts_day d \<and> ts_day d \<le> days_in_month (ts_year d) (ts_month d))"

text \<open>
  A row of \<^verbatim>\<open>vendas\<close>. The column \<^verbatim>\<open>valor\<close> is a column of 64-bit floating point
  numbers; its cells are kept abstract (the type \<open>'v\<close>). The foreign key column is
  called \<^verbatim>\<open>id_cliente\<close> in the source, like the key of \<^verbatim>\<open>clientes\<close>; the field is
  named \<open>venda_id_cliente\<close> here, since two records cannot share a field name.
\<close>

record 'v venda =
  id_venda :: int
  venda_id_cliente :: int
  data_venda :: "timestamp option"
  valor :: 'v
  mes_venda :: "int option"
  ano_venda :: "int option"
  status_venda :: "nat list option"

definition dt_month :: "timestamp option \<Rightarrow> int option" where
  "dt_month t = map_option (\<lambda>d. int (ts_month d)) t"

definition dt_year :: "timestamp option \<Rightarrow> int option" where
  "dt_year t = map_option ts_year t"

section \<open>The transformation\<close>

text \<open>
  \<^verbatim>\<open>formatar_documento(doc, tipo)\<close>, the function nested in \<^verbatim>\<open>transformar_dados\<close>.
  The Python \<^verbatim>\<open>None\<close> it returns is \<open>None\<close>. It has no statement that raises: the
  function is total.
\<close>

definition formatar_documento ::
  "unicode \<Rightarrow> nat list option \<Rightarrow> nat list option \<Rightarrow> nat list option" where
  "formatar_documento u doc tipo =
     (if doc = None \<or> doc = Some [] then None
      else
        let doc_limpo = filter (isdigit u) (the doc) in
        if tipo = Some (pystr ''FISICA'') \<and> length doc_limpo = 11 then
          Some (slice 0 3 doc_limpo @ pystr ''.'' @ slice 3 6 doc_limpo @ pystr ''.'' @
                slice 6 9 doc_limpo @ pystr ''-'' @ slice_from 9 doc_limpo)
        else if tipo = Some (pystr ''JURIDICA'') \<and> length doc_limpo = 14 then
          Some (slice 0 2 doc_limpo @ pystr ''.'' @ slice 2 5 doc_limpo @ pystr ''.'' @
                slice 5 8 doc_limpo @ pystr ''/'' @ slice 8 12 doc_limpo @ pystr ''-'' @
                slice_from 12 doc_limpo)
        else Some doc_limpo)"

text \<open>
  The status literal assigned to \<^verbatim>\<open>status_venda\<close>: nine code points, of which the
  seventh is U+00CD, the capital I with an acute accent.
\<close>

definition CONCLUIDA :: "nat list" where
  "CONCLUIDA = pystr (''CONCLU'' @ [CHR 0xCD] @ ''DA'')"

text \<open>
  \<^verbatim>\<open>transformar_dados(df_clientes, df_vendas)\<close>, one column assignment after the
  other as in the source. Three values come from outside the function and are its
  first parameters here: \<open>u\<close> is the Unicode data behind the string methods,
  \<open>round2\<close> is what \<^verbatim>\<open>Series.round(2)\<close> does to a cell of \<^verbatim>\<open>valor\<close>, and \<open>hoje\<close> is
  \<^verbatim>\<open>datetime.now().strftime('%Y-%m-%d')\<close>, the day of the run.
\<close>

definition transformar_dados ::
  "unicode \<Rightarrow> ('v \<Rightarrow> 'v) \<Rightarrow> nat list \<Rightarrow> cliente list \<Rightarrow> 'v venda list \<Rightarrow>
     cliente list \<times> 'v venda list" where
  "transformar_dados u round2 hoje df_clientes df_vendas =
     (let clientes = df_clientes;
          vendas = df_vendas;
          clientes = map (\<lambda>row. row\<lparr>tipo_pessoa :=
                        fillna (pystr ''FISICA'') (tipo_pessoa row)\<rparr>) clientes;
          clientes = map (\<lambda>row. row\<lparr>tipo_pessoa := str_upper u (tipo_pessoa row)\<rparr>) clientes;
          clientes = map (\<lambda>row. row\<lparr>tipo_contato :=
                        fillna (pystr ''email'') (tipo_contato row)\<rparr>) clientes;
          clientes = map (\<lambda>row. row\<lparr>tipo_contato := str_lower u (tipo_contato row)\<rparr>) clientes;
          clientes = map (\<lambda>row. row\<lparr>documento_formatado :=
                        formatar_documento u (documento row) (tipo_pessoa row)\<rparr>) clientes;
          clientes = map (\<lambda>row. row\<lparr>data_cadastro := Some hoje\<rparr>) clientes;
          vendas = map (\<lambda>row. row\<lparr>valor := round2 (valor row)\<rparr>) vendas;
          vendas = map (\<lambda>row. row\<lparr>mes_venda := dt_month (data_venda row)\<rparr>) vendas;
          vendas = map (\<lambda>row. row\<lparr>ano_venda := dt_year (data_venda row)\<rparr>) vendas;
          vendas = map (\<lambda>row. row\<lparr>status_venda := Some CONCLUIDA\<rparr>) vendas
      in (clientes, vendas))"

section \<open>An instance of the rounding\<close>

text \<open>
  An instance for the rounding parameter, used in the examples only: rounding to two
  decimals in exact rational arithmetic, a tie going to the even neighbour as numpy
  does. It is not the floating point operation of the source, which stays a parameter
  in every general statement.
\<close>

definition round2_exact :: "rat \<Rightarrow> rat" where
  "round2_exact x =
     (let t = x * 100; n = \<lfloor>t\<rfloor>; r = t - of_int n in
      (if r < 1 / 2 \<or> (r = 1 / 2 \<and> even n) then of_int n else of_int (n + 1)) / 100)"

section \<open>Basic facts\<close>

lemma upper_FISICA: "upper u (pystr ''FISICA'') = pystr ''FISICA''"
  by (simp add: upper_def pystr_def ascii_upper_def)

lemma lower_email: "lower u (pystr ''email'') = pystr ''email''"
  by (simp add: lower_def pystr_def ascii_lower_def)

text \<open>
  The twelve column assignments, fused: every output row is a function of the input
  row at the same position alone.
\<close>

lemma clientes_rows:
  "fst (transformar_dados u round2 hoje df_clientes df_vendas) =
     map (\<lambda>row. row\<lparr>tipo_pessoa := str_upper u (fillna (pystr ''FISICA'') (tipo_pessoa row)),
                     tipo_contato := str_lower u (fillna (pystr ''email'') (tipo_contato row)),
                     documento_formatado := formatar_documento u (documento row)
                        (str_upper u (fillna (pystr ''FISICA'') (tipo_pessoa row))),
                     data_cadastro := Some hoje\<rparr>) df_clientes"
  by (simp add: transformar_dados_def Let_def comp_def)

lemma vendas_rows:
  "snd (transformar_dados u round2 hoje df_clientes df_vendas) =
     map (\<lambda>row. row\<lparr>valor := round2 (valor row),
                     mes_venda := dt_month (data_venda row),
                     ano_venda := dt_year (data_venda row),
                     status_venda := Some CONCLUIDA\<rparr>) df_vendas"
  by (simp add: transformar_dados_def Let_def comp_def)

subsection \<open>Beyond ASCII\<close>

text \<open>
  Text that is not all ASCII is converted by the Unicode data, and a code point the
  data call a digit is kept by the filter like any other digit: with the superscript
  two (U+00B2, 178) a digit, as it is in Python, twelve characters are too many for
  the CPF pattern, eleven are formatted with the superscript in the last group, and
  the superscript alone is returned as it is. Likewise a tag with an accented letter
  (U+00ED, 237) becomes what the data say, capital accent included (U+00CD, 205).
\<close>

lemma upper_beyond_ascii: "\<not> list_all (\<lambda>c. c < 128) s \<Longrightarrow> upper u s = uni_upper u s"
  by (simp add: upper_def)

lemma upper_accented:
  assumes "uni_upper u (pystr ''f'' @ [237] @ pystr ''sica'') = pystr ''F'' @ [205] @ pystr ''SICA''"
  shows "str_upper u (fillna (pystr ''FISICA'') (Some (pystr ''f'' @ [237] @ pystr ''sica''))) =
           Some (pystr ''F'' @ [205] @ pystr ''SICA'')"
  using assms by (simp add: str_upper_def fillna_def upper_def pystr_def)

lemma documento_superscript_kept:
  assumes "uni_isdigit u 178"
  shows "formatar_documento u (Some (pystr ''12345678901'' @ [178])) (Some (pystr ''FISICA'')) =
           Some (pystr ''12345678901'' @ [178]) \<and>
         formatar_documento u (Some (pystr ''1234567890'' @ [178])) (Some (pystr ''FISICA'')) =
           Some (pystr ''123.456.789-0'' @ [178]) \<and>
         formatar_documento u (Some [178]) (Some (pystr ''FISICA'')) = Some [178]"
  using assms
  by (simp add: formatar_documento_def Let_def isdigit_def pystr_def slice_def slice_from_def)

section \<open>The person-type tag\<close>

text \<open>
  C1. For every row of \<^verbatim>\<open>clientes\<close>, the output person-type tag is \<^verbatim>\<open>FISICA\<close> when the
  input tag is missing, and otherwise the uppercase conversion of the input tag, as
  \<^verbatim>\<open>str.upper\<close> computes it. An empty string is not missing: \<^verbatim>\<open>fillna\<close> leaves it
  alone and its uppercase conversion is the empty string again, so the default does
  not apply to it.
\<close>

theorem tipo_pessoa_saida:
  "map tipo_pessoa (fst (transformar_dados u round2 hoje df_clientes df_vendas)) =
     map (\<lambda>row. case tipo_pessoa row of
                   None \<Rightarrow> Some (pystr ''FISICA'')
                 | Some t \<Rightarrow> Some (upper u t)) df_clientes"
  by (simp add: clientes_rows comp_def fillna_def str_upper_def upper_FISICA
      split: option.split)

text \<open>
  A row whose person-type tag is the empty string keeps the empty string, whatever the
  Unicode data are.
\<close>

theorem tipo_pessoa_vazio_counterexample:
  "\<forall>u. tipo_pessoa (hd (fst (transformar_dados u (id :: unit \<Rightarrow> unit) (pystr ''2024-03-15'')
      [\<lparr>id_cliente = 1, nome = pystr ''Ana'', email = pystr ''a@x.com'',
        documento = Some (pystr ''12345678901''), tipo_pessoa = Some [],
        tipo_contato = None, documento_formatado = None, data_cadastro = None\<rparr>]
      []))) = Some [] \<and>
   Some [] \<noteq> Some (pystr ''FISICA'')"
  by (simp add: transformar_dados_def Let_def fillna_def str_upper_def upper_def pystr_def)

section \<open>Document formatting\<close>

text \<open>
  In the statements of this section a digit is a character that \<^verbatim>\<open>str.isdigit\<close>
  accepts, that is, a character the stripping step of the function keeps.
\<close>

text \<open>
  C2. Whatever the person type, \<^verbatim>\<open>formatar_documento\<close> returns \<^verbatim>\<open>None\<close> for a missing
  document and for the empty string; the first test of the function answers before
  any character is looked at.
\<close>

theorem formatar_documento_vazio:
  "formatar_documento u None tipo = None \<and> formatar_documento u (Some []) tipo = None"
  by (simp add: formatar_documento_def)









section \<open>The sales frame\<close>

text \<open>
  C6. Every row of the output \<^verbatim>\<open>vendas\<close> carries the constant status: the column
  \<^verbatim>\<open>status_venda\<close> of the output is the status literal repeated once per input row,
  whatever the rows, the clients, the rounding and the day of the run are.
\<close>

theorem status_venda_constante:
  "map status_venda (snd (transformar_dados u round2 hoje df_clientes df_vendas)) =
     replicate (length df_vendas) (Some CONCLUIDA)"
  by (simp add: vendas_rows comp_def map_replicate_const)

text \<open>
  C7. For the row at any position of \<^verbatim>\<open>vendas\<close> whose \<^verbatim>\<open>data_venda\<close> is a valid calendar
  date, the output row at that position has the month of that date, a number from 1
  to 12, in \<^verbatim>\<open>mes_venda\<close> and its year in \<^verbatim>\<open>ano_venda\<close>.
\<close>

theorem mes_ano_venda:
  assumes "i < length df_vendas"
    and "data_venda (df_vendas ! i) = Some d"
    and "valid_date d"
  shows "mes_venda (snd (transformar_dados u round2 hoje df_clientes df_vendas) ! i) =
           Some (int (ts_month d)) \<and>
         ano_venda (snd (transformar_dados u round2 hoje df_clientes df_vendas) ! i) =
           Some (ts_year d) \<and>
         1 \<le> int (ts_month d) \<and> int (ts_month d) \<le> 12"
  using assms by (simp add: vendas_rows dt_month_def dt_year_def valid_date_def)

theorem mes_ano_venda_witness:
  "\<forall>u. (0::nat) < length [\<lparr>id_venda = 10, venda_id_cliente = 1,
        data_venda = Some \<lparr>ts_year = 2024, ts_month = 3, ts_day = 15\<rparr>,
        valor = (99999 / 1000 :: rat), mes_venda = None, ano_venda = None,
        status_venda = None\<rparr>] \<and>
   valid_date \<lparr>ts_year = 2024, ts_month = 3, ts_day = 15\<rparr> \<and>
   mes_venda (snd (transformar_dados u round2_exact (pystr ''2024-03-20'') []
      [\<lparr>id_venda = 10, venda_id_cliente = 1,
        data_venda = Some \<lparr>ts_year = 2024, ts_month = 3, ts_day = 15\<rparr>,
        valor = 99999 / 1000, mes_venda = None, ano_venda = None,
        status_venda = None\<rparr>]) ! 0) = Some 3 \<and>
   ano_venda (snd (transformar_dados u round2_exact (pystr ''2024-03-20'') []
      [\<lparr>id_venda = 10, venda_id_cliente = 1,
        data_venda = Some \<lparr>ts_year = 2024, ts_month = 3, ts_day = 15\<rparr>,
        valor = 99999 / 1000, mes_venda = None, ano_venda = None,
        status_venda = None\<rparr>]) ! 0) = Some 2024"
proof -
  have v: "valid_date \<lparr>ts_year = 2024, ts_month = 3, ts_day = 15\<rparr>"
    by (simp add: valid_date_def days_in_month_def)
  have "(0::nat) < length [\<lparr>id_venda = 10, venda_id_cliente = 1,
        data_venda = Some \<lparr>ts_year = 2024, ts_month = 3, ts_day = 15\<rparr>,
        valor = (99999 / 1000 :: rat), mes_venda = None, ano_venda = None,
        status_venda = None\<rparr>] \<and>
   valid_date \<lparr>ts_year = 2024, ts_month = 3, ts_day = 15\<rparr> \<and>
   mes_venda (snd (transformar_dados u round2_exact (pystr ''2024-03-20'') []
      [\<lparr>id_venda = 10, venda_id_cliente = 1,
        data_venda = Some \<lparr>ts_year = 2024, ts_month = 3, ts_day = 15\<rparr>,
        valor = 99999 / 1000, mes_venda = None, ano_venda = None,
        status_venda = None\<rparr>]) ! 0) = Some 3 \<and>
   ano_venda (snd (transformar_dados u round2_exact (pystr ''2024-03-20'') []
      [\<lparr>id_venda = 10, venda_id_cliente = 1,
        data_venda = Some \<lparr>ts_year = 2024, ts_month = 3, ts_day = 15\<rparr>,
        valor = 99999 / 1000, mes_venda = None, ano_venda = None,
        status_venda = None\<rparr>]) ! 0) = Some 2024" for u
    using v mes_ano_venda [of 0 "[\<lparr>id_venda = 10, venda_id_cliente = 1,
        data_venda = Some \<lparr>ts_year = 2024, ts_month = 3, ts_day = 15\<rparr>,
        valor = (99999 / 1000 :: rat), mes_venda = None, ano_venda = None,
        status_venda = None\<rparr>]" "\<lparr>ts_year = 2024, ts_month = 3, ts_day = 15\<rparr>"
        u round2_exact "pystr ''2024-03-20''" "[]"]
    by simp
  then show ?thesis
    by blast
qed

section \<open>Both frames\<close>

text \<open>
  C8. For all input frames, each output frame has as many rows as its input, and the
  columns the transformation does not assign are the input's, position by position:
  the identifiers first of all (\<^verbatim>\<open>id_cliente\<close>, \<^verbatim>\<open>id_venda\<close>), and with them the
  name, the email and the raw document of a client, the client reference and the date
  of a sale. No row is dropped, added or moved.
\<close>

theorem ordem_e_identificadores:
  "length (fst (transformar_dados u round2 hoje df_clientes df_vendas)) = length df_clientes \<and>
   length (snd (transformar_dados u round2 hoje df_clientes df_vendas)) = length df_vendas \<and>
   map id_cliente (fst (transformar_dados u round2 hoje df_clientes df_vendas)) =
     map id_cliente df_clientes \<and>
   map id_venda (snd (transformar_dados u round2 hoje df_clientes df_vendas)) =
     map id_venda df_vendas \<and>
   map (\<lambda>row. (nome row, email row, documento row))
       (fst (transformar_dados u round2 hoje df_clientes df_vendas)) =
     map (\<lambda>row. (nome row, email row, documento row)) df_clientes \<and>
   map (\<lambda>row. (venda_id_cliente row, data_venda row))
       (snd (transformar_dados u round2 hoje df_clientes df_vendas)) =
     map (\<lambda>row. (venda_id_cliente row, data_venda row)) df_vendas"
  by (simp add: clientes_rows vendas_rows comp_def)

end
